theory Spec2Isabelle
  imports Complex_Main "HOL-Library.Sublist" "HOL-Library.Char_ord" "HOL-Library.List_Lexorder"
begin

section \<open>Strings as the scripts use them\<close>

text \<open>
  Python \<open>str\<close> values are modelled as \<open>string\<close> (lists of characters). The test
  paths, board names and build output the scripts handle are ASCII; \<open>str.lower\<close> is
  modelled on the ASCII letters and leaves every other character as it is.
\<close>

definition lower_char :: "char \<Rightarrow> char" where
  "lower_char c =
     (if (65::nat) \<le> of_char c \<and> (of_char c :: nat) \<le> 90
      then char_of ((of_char c :: nat) + 32) else c)"

definition lower :: "string \<Rightarrow> string" where
  "lower s = map lower_char s"

text \<open>\<open>starts_with p s\<close>: \<open>s.startswith(p)\<close>.\<close>

fun starts_with :: "string \<Rightarrow> string \<Rightarrow> bool" where
  "starts_with [] s = True"
| "starts_with (p # ps) [] = False"
| "starts_with (p # ps) (c # cs) = (p = c \<and> starts_with ps cs)"

text \<open>\<open>contains p s\<close>: the Python test \<open>p in s\<close> on strings (substring search).\<close>

fun contains :: "string \<Rightarrow> string \<Rightarrow> bool" where
  "contains p [] = (p = [])"
| "contains p (c # cs) = (starts_with p (c # cs) \<or> contains p cs)"

section \<open>Data structures of the test selector\<close>

text \<open>
  A Python \<open>dict\<close> keeps its keys in insertion order and the generator iterates over
  it, so each dict is an association list in declared order; lookup is \<open>map_of\<close>.
\<close>

record BoardConfig =
  name :: string
  series :: string
  peripherals :: "string list"
  test_suites :: "(string \<times> string list) list"
  arch :: string

record TestPlan =
  board :: string
  test_path :: string
  category :: string
  required_peripherals :: "string list"

section \<open>TestPlanGenerator._infer_required_peripherals\<close>

definition infer_required_peripherals :: "string \<Rightarrow> string list" where
  "infer_required_peripherals path =
     (let peripherals0 = [];
          test_lower = lower path;
          peripherals1 = (if contains ''i2c'' test_lower
                          then peripherals0 @ [''i2c''] else peripherals0);
          peripherals2 = (if contains ''spi'' test_lower
                          then peripherals1 @ [''spi''] else peripherals1);
          peripherals3 = (if contains ''uart'' test_lower \<or> contains ''console'' test_lower
                             \<or> contains ''shell'' test_lower
                          then peripherals2 @ [''uart''] else peripherals2);
          peripherals4 = (if contains ''gpio'' test_lower \<or> contains ''blinky'' test_lower
                          then peripherals3 @ [''gpio''] else peripherals3);
          peripherals5 = (if contains ''can'' test_lower
                          then peripherals4 @ [''can''] else peripherals4);
          peripherals6 = (if contains ''net'' test_lower \<or> contains ''ethernet'' test_lower
                          then peripherals5 @ [''ethernet''] else peripherals5);
          peripherals7 = (if contains ''adc'' test_lower
                          then peripherals6 @ [''adc''] else peripherals6);
          peripherals8 = (if contains ''pwm'' test_lower
                          then peripherals7 @ [''pwm''] else peripherals7)
      in peripherals8)"

text \<open>
  The rule table of the specification, in its check order: each rule is the list of
  trigger substrings and the peripheral identifier they stand for.
\<close>

definition peripheral_rules :: "(string list \<times> string) list" where
  "peripheral_rules =
     [([''i2c''], ''i2c''),
      ([''spi''], ''spi''),
      ([''uart'', ''console'', ''shell''], ''uart''),
      ([''gpio'', ''blinky''], ''gpio''),
      ([''can''], ''can''),
      ([''net'', ''ethernet''], ''ethernet''),
      ([''adc''], ''adc''),
      ([''pwm''], ''pwm'')]"

definition rule_fires :: "string \<Rightarrow> string list \<times> string \<Rightarrow> bool" where
  "rule_fires s r = list_ex (\<lambda>pat. contains pat s) (fst r)"

definition infer_by_table :: "string \<Rightarrow> string list" where
  "infer_by_table path = map snd (filter (rule_fires (lower path)) peripheral_rules)"

section \<open>PeripheralMatrixLoader\<close>

text \<open>
  The \<open>boards\<close> entry of a test group is, in the YAML file, either a string (the
  sentinel \<open>all\<close>) or a list of board names.
\<close>

datatype board_selector = SelString string | SelList "string list"

text \<open>
  A test group is the dict read from the YAML file; each of its keys may be missing.
  A group with no key at all is the empty dict, which Python treats as false (as it
  does the null value).
\<close>

record group_config =
  group_description :: "string option"
  group_tests :: "string list option"
  group_boards :: "board_selector option"

definition group_falsy :: "group_config \<Rightarrow> bool" where
  "group_falsy g =
     (group_description g = None \<and> group_tests g = None \<and> group_boards g = None)"

record PeripheralMatrixLoader =
  boards :: "(string \<times> BoardConfig) list"
  test_groups :: "(string \<times> group_config) list"

definition get_board_config :: "PeripheralMatrixLoader \<Rightarrow> string \<Rightarrow> BoardConfig option" where
  "get_board_config loader board_name = map_of (boards loader) board_name"

definition get_all_boards :: "PeripheralMatrixLoader \<Rightarrow> string list" where
  "get_all_boards loader = map fst (boards loader)"

section \<open>TestPlanGenerator\<close>

subsection \<open>generate_for_board\<close>

text \<open>The inner loop \<open>for test_path in tests\<close>; \<open>acc\<close> is the list \<open>test_plans\<close>.\<close>

fun board_tests_loop ::
  "BoardConfig \<Rightarrow> string \<Rightarrow> string \<Rightarrow> string list \<Rightarrow> TestPlan list \<Rightarrow> TestPlan list" where
  "board_tests_loop cfg board_name cat [] acc = acc"
| "board_tests_loop cfg board_name cat (t # ts) acc =
     (let required = infer_required_peripherals t
      in board_tests_loop cfg board_name cat ts
           (if list_all (\<lambda>p. p \<in> set (peripherals cfg)) required
            then acc @ [\<lparr>board = board_name, test_path = t, category = cat,
                          required_peripherals = required\<rparr>]
            else acc))"

text \<open>The outer loop \<open>for category, tests in board_config.test_suites.items()\<close>.\<close>

fun board_suites_loop ::
  "BoardConfig \<Rightarrow> string \<Rightarrow> (string \<times> string list) list \<Rightarrow> TestPlan list \<Rightarrow> TestPlan list" where
  "board_suites_loop cfg board_name [] acc = acc"
| "board_suites_loop cfg board_name ((cat, tests) # rest) acc =
     board_suites_loop cfg board_name rest (board_tests_loop cfg board_name cat tests acc)"

definition generate_for_board :: "PeripheralMatrixLoader \<Rightarrow> string \<Rightarrow> TestPlan list" where
  "generate_for_board loader board_name =
     (case get_board_config loader board_name of
        None \<Rightarrow> []
      | Some cfg \<Rightarrow> board_suites_loop cfg board_name (test_suites cfg) [])"

subsection \<open>generate_for_all_boards\<close>

text \<open>
  The optional argument \<open>board_filter\<close> is \<open>None\<close> or a list; the source tests it
  for truth, and both \<open>None\<close> and the empty list are false.
\<close>

fun all_boards_loop ::
  "PeripheralMatrixLoader \<Rightarrow> string list \<Rightarrow> TestPlan list \<Rightarrow> TestPlan list" where
  "all_boards_loop loader [] all_plans = all_plans"
| "all_boards_loop loader (board_name # rest) all_plans =
     all_boards_loop loader rest (all_plans @ generate_for_board loader board_name)"

definition generate_for_all_boards ::
  "PeripheralMatrixLoader \<Rightarrow> string list option \<Rightarrow> TestPlan list" where
  "generate_for_all_boards loader board_filter =
     (let bs = (case board_filter of
                  None \<Rightarrow> get_all_boards loader
                | Some f \<Rightarrow> if f \<noteq> [] then f else get_all_boards loader)
      in all_boards_loop loader bs [])"

subsection \<open>generate_by_group\<close>

text \<open>The inner loop \<open>for test_path in tests\<close> of one board.\<close>

fun group_tests_loop ::
  "string \<Rightarrow> string \<Rightarrow> string list \<Rightarrow> TestPlan list \<Rightarrow> TestPlan list" where
  "group_tests_loop group_name b [] acc = acc"
| "group_tests_loop group_name b (t # ts) acc =
     (let required = infer_required_peripherals t
      in group_tests_loop group_name b ts
           (acc @ [\<lparr>board = b, test_path = t, category = group_name,
                     required_peripherals = required\<rparr>]))"

fun group_boards_loop ::
  "string \<Rightarrow> string list \<Rightarrow> string list \<Rightarrow> TestPlan list \<Rightarrow> TestPlan list" where
  "group_boards_loop group_name tests [] acc = acc"
| "group_boards_loop group_name tests (b # bs) acc =
     group_boards_loop group_name tests bs (group_tests_loop group_name b tests acc)"

text \<open>
  \<open>iterate_selector\<close> is what \<open>for board in boards\<close> runs over: the elements of a
  list, or the one-character strings of a string.
\<close>

fun iterate_selector :: "board_selector \<Rightarrow> string list" where
  "iterate_selector (SelList bs) = bs"
| "iterate_selector (SelString s) = map (\<lambda>c. [c]) s"

definition generate_by_group :: "PeripheralMatrixLoader \<Rightarrow> string \<Rightarrow> TestPlan list" where
  "generate_by_group loader group_name =
     (case map_of (test_groups loader) group_name of
        None \<Rightarrow> []
      | Some g \<Rightarrow>
          if group_falsy g then []
          else
            (let tests = (case group_tests g of None \<Rightarrow> [] | Some ts \<Rightarrow> ts);
                 sel = (case group_boards g of None \<Rightarrow> SelList [] | Some b \<Rightarrow> b);
                 bs = (if sel = SelString ''all'' then get_all_boards loader
                       else iterate_selector sel)
             in group_boards_loop group_name tests bs []))"

subsection \<open>export_to_json and print_summary\<close>

text \<open>
  The document \<open>data\<close> that \<open>export_to_json\<close> builds and hands to \<open>json.dump\<close>:
  JSON values, an object being the list of its members in the order written.
\<close>

datatype json =
    JString string
  | JNumber int
  | JArray "json list"
  | JObject "(string \<times> json) list"

definition plan_to_json :: "TestPlan \<Rightarrow> json" where
  "plan_to_json plan =
     JObject [(''board'', JString (board plan)),
              (''test_path'', JString (test_path plan)),
              (''category'', JString (category plan)),
              (''required_peripherals'', JArray (map JString (required_peripherals plan)))]"

definition export_summary :: "TestPlan list \<Rightarrow> json" where
  "export_summary plans =
     JObject [(''total_tests'', JNumber (int (length plans))),
              (''boards'', JNumber (int (card (set (map board plans))))),
              (''unique_tests'', JNumber (int (card (set (map test_path plans)))))]"

definition export_data :: "TestPlan list \<Rightarrow> json" where
  "export_data plans =
     JObject [(''test_plans'', JArray (map plan_to_json plans)),
              (''summary'', export_summary plans)]"

text \<open>The three numbers \<open>print_summary\<close> prints, in the order printed.\<close>

definition print_summary_counts :: "TestPlan list \<Rightarrow> nat \<times> nat \<times> nat" where
  "print_summary_counts plans =
     (let boards_set = set (map board plans);
          tests_set = set (map test_path plans)
      in (length plans, card boards_set, card tests_set))"

text \<open>
  Reading a document back: member lookup by key, as a JSON reader gives it. The
  scripts have no reader of their own; these functions take the exported document
  apart again, field by field.
\<close>

fun json_member :: "string \<Rightarrow> json \<Rightarrow> json option" where
  "json_member k (JObject ms) = map_of ms k"
| "json_member k (JString s) = None"
| "json_member k (JNumber n) = None"
| "json_member k (JArray xs) = None"

fun json_string :: "json \<Rightarrow> string option" where
  "json_string (JString s) = Some s"
| "json_string (JNumber n) = None"
| "json_string (JArray xs) = None"
| "json_string (JObject ms) = None"

fun json_number :: "json \<Rightarrow> int option" where
  "json_number (JNumber n) = Some n"
| "json_number (JString s) = None"
| "json_number (JArray xs) = None"
| "json_number (JObject ms) = None"

fun json_array :: "json \<Rightarrow> json list option" where
  "json_array (JArray xs) = Some xs"
| "json_array (JString s) = None"
| "json_array (JNumber n) = None"
| "json_array (JObject ms) = None"

definition read_string_member :: "string \<Rightarrow> json \<Rightarrow> string option" where
  "read_string_member k j = Option.bind (json_member k j) json_string"

definition read_number_member :: "string \<Rightarrow> json \<Rightarrow> int option" where
  "read_number_member k j = Option.bind (json_member k j) json_number"

definition read_string_list_member :: "string \<Rightarrow> json \<Rightarrow> string list option" where
  "read_string_list_member k j =
     Option.bind (Option.bind (json_member k j) json_array) (\<lambda>xs. those (map json_string xs))"

definition read_plan :: "json \<Rightarrow> TestPlan option" where
  "read_plan j =
     Option.bind (read_string_member ''board'' j) (\<lambda>b.
     Option.bind (read_string_member ''test_path'' j) (\<lambda>t.
     Option.bind (read_string_member ''category'' j) (\<lambda>c.
     Option.bind (read_string_list_member ''required_peripherals'' j) (\<lambda>r.
       Some \<lparr>board = b, test_path = t, category = c, required_peripherals = r\<rparr>))))"

definition read_test_plans :: "json \<Rightarrow> TestPlan list option" where
  "read_test_plans doc =
     Option.bind (Option.bind (json_member ''test_plans'' doc) json_array)
       (\<lambda>xs. those (map read_plan xs))"

definition read_summary :: "json \<Rightarrow> (int \<times> int \<times> int) option" where
  "read_summary doc =
     Option.bind (json_member ''summary'' doc) (\<lambda>s.
     Option.bind (read_number_member ''total_tests'' s) (\<lambda>t.
     Option.bind (read_number_member ''boards'' s) (\<lambda>b.
     Option.bind (read_number_member ''unique_tests'' s) (\<lambda>u. Some (t, b, u)))))"

section \<open>The local tester: west_build\<close>

subsection \<open>String operations of the builder\<close>

definition newline :: char where
  "newline = CHR 0x0A"

text \<open>\<open>split_on d s\<close>: \<open>s.split(d)\<close> for a one-character separator.\<close>

fun split_on :: "char \<Rightarrow> string \<Rightarrow> string list" where
  "split_on d [] = [[]]"
| "split_on d (c # cs) =
     (if c = d then [] # split_on d cs
      else (case split_on d cs of
              [] \<Rightarrow> [[c]]
            | l # ls \<Rightarrow> (c # l) # ls))"

text \<open>\<open>join sep xs\<close>: \<open>sep.join(xs)\<close>.\<close>

fun join :: "string \<Rightarrow> string list \<Rightarrow> string" where
  "join sep [] = []"
| "join sep [x] = x"
| "join sep (x # y # ys) = x @ sep @ join sep (y # ys)"

text \<open>The ASCII characters for which \<open>str.isspace\<close> holds.\<close>

definition is_space :: "char \<Rightarrow> bool" where
  "is_space c =
     (let n = (of_char c :: nat) in (9 \<le> n \<and> n \<le> 13) \<or> (28 \<le> n \<and> n \<le> 32))"

definition strip :: "string \<Rightarrow> string" where
  "strip s = rev (dropWhile is_space (rev (dropWhile is_space s)))"

text \<open>\<open>last_n n xs\<close>: the slice \<open>xs[-n:]\<close> for \<open>n > 0\<close>.\<close>

definition last_n :: "nat \<Rightarrow> 'a list \<Rightarrow> 'a list" where
  "last_n n xs = drop (length xs - n) xs"

text \<open>\<open>str_int i\<close>: the decimal text of an integer, as an f-string formats it.\<close>

definition digit_char :: "nat \<Rightarrow> char" where
  "digit_char d = char_of (48 + d)"

function str_nat :: "nat \<Rightarrow> string" where
  "str_nat n = (if n < 10 then [digit_char n] else str_nat (n div 10) @ [digit_char (n mod 10)])"
  by pat_completeness auto
termination
  by (relation "measure id") auto

declare str_nat.simps [simp del]

definition str_int :: "int \<Rightarrow> string" where
  "str_int i = (if i < 0 then CHR ''-'' # str_nat (nat (- i)) else str_nat (nat i))"

subsection \<open>Data structures of the tester\<close>

definition MAX_LOG_LENGTH :: nat where
  "MAX_LOG_LENGTH = 1000"

record TestCase =
  tc_name :: string
  tc_path :: string
  tc_tags :: "string list"
  tc_platforms :: "string list"
  tc_source_type :: string

record BuildResult =
  br_board :: string
  br_testcase :: string
  success :: bool
  message :: string
  duration :: real
  build_dir :: "string option"
  log_output :: string

text \<open>
  What \<open>subprocess.run\<close> does inside the \<open>try\<close> block: it returns a completed
  process (exit status and the combined output), or raises \<open>TimeoutExpired\<close>, which
  carries the output captured until the process was killed, or raises another
  exception, carried here by its text \<open>str(e)\<close>.
\<close>

datatype run_outcome =
    Completed int string
  | TimeoutExpired string
  | Raised string

subsection \<open>west_build\<close>

definition is_error_line :: "string \<Rightarrow> bool" where
  "is_error_line line =
     (contains ''error:'' (lower line) \<or> contains ''fatal error:'' (lower line))"

definition truncate_log :: "string \<Rightarrow> string" where
  "truncate_log output =
     (if length output > MAX_LOG_LENGTH then last_n MAX_LOG_LENGTH output else output)"

definition failure_message :: "string \<Rightarrow> string" where
  "failure_message output =
     (let error_lines = filter is_error_line (split_on newline output);
          error_msg =
            (if error_lines \<noteq> [] then join [newline] (last_n 5 error_lines)
             else (let output_lines = split_on newline (strip output)
                   in join [newline] (last_n 10 output_lines)))
      in ''Build failed:'' @ [newline] @ error_msg)"

text \<open>
  \<open>west_build\<close> on the outcome of the process it starts. The command line reaches
  only the external process; \<open>elapsed\<close> is the measured \<open>time.time() - start_time\<close>.
\<close>

definition west_build ::
  "string \<Rightarrow> TestCase \<Rightarrow> string \<Rightarrow> int \<Rightarrow> real \<Rightarrow> run_outcome \<Rightarrow> BuildResult" where
  "west_build b testcase bdir timeout elapsed outcome =
     (case outcome of
        Completed returncode output \<Rightarrow>
          if returncode = 0 then
            \<lparr>br_board = b, br_testcase = tc_name testcase, success = True,
             message = ''Build successful'', duration = elapsed,
             build_dir = Some bdir, log_output = truncate_log output\<rparr>
          else
            \<lparr>br_board = b, br_testcase = tc_name testcase, success = False,
             message = failure_message output, duration = elapsed,
             build_dir = Some bdir, log_output = truncate_log output\<rparr>
      | TimeoutExpired captured \<Rightarrow>
          \<lparr>br_board = b, br_testcase = tc_name testcase, success = False,
           message = ''Build timeout after '' @ str_int timeout @ ''s'',
           duration = real_of_int timeout,
           build_dir = None, log_output = ''Build timed out''\<rparr>
      | Raised e \<Rightarrow>
          \<lparr>br_board = b, br_testcase = tc_name testcase, success = False,
           message = ''Build error: '' @ e, duration = elapsed,
           build_dir = None, log_output = e\<rparr>)"

section \<open>Notions of the specification\<close>

text \<open>
  The declared (category, test path) pairs of a board: categories in declared order,
  the test paths of each category in declared order.
\<close>

definition suite_pairs :: "BoardConfig \<Rightarrow> (string \<times> string) list" where
  "suite_pairs cfg = concat (map (\<lambda>(cat, tests). map (Pair cat) tests) (test_suites cfg))"

text \<open>The plan entry of a board and a (category, test path) pair.\<close>

definition plan_entry :: "string \<Rightarrow> string \<times> string \<Rightarrow> TestPlan" where
  "plan_entry b ct =
     \<lparr>board = b, test_path = snd ct, category = fst ct,
      required_peripherals = infer_required_peripherals (snd ct)\<rparr>"

text \<open>Every peripheral inferred for the test path is one of the board's.\<close>

definition board_supports :: "BoardConfig \<Rightarrow> string \<Rightarrow> bool" where
  "board_supports cfg t = (set (infer_required_peripherals t) \<subseteq> set (peripherals cfg))"

text \<open>
  The invariant of a plan entry: its board is known and has every peripheral the
  entry requires.
\<close>

definition plan_supported :: "PeripheralMatrixLoader \<Rightarrow> TestPlan \<Rightarrow> bool" where
  "plan_supported loader p =
     (case get_board_config loader (board p) of
        None \<Rightarrow> False
      | Some cfg \<Rightarrow> list_all (\<lambda>x. x \<in> set (peripherals cfg)) (required_peripherals p))"

text \<open>One entry for every (board, test path) pair: boards outer, tests inner.\<close>

definition group_plans :: "string \<Rightarrow> string list \<Rightarrow> string list \<Rightarrow> TestPlan list" where
  "group_plans g bs ts =
     concat (map (\<lambda>b. map (\<lambda>t. \<lparr>board = b, test_path = t, category = g,
        required_peripherals = infer_required_peripherals t\<rparr>) ts) bs)"

definition group_test_list :: "group_config \<Rightarrow> string list" where
  "group_test_list gc = (case group_tests gc of None \<Rightarrow> [] | Some ts \<Rightarrow> ts)"

text \<open>
  The lines a failed build keeps for its message: the last five lines that carry an
  error marker, or the last ten lines of the stripped output when no line does.
\<close>

definition diagnostic_lines :: "string \<Rightarrow> string list" where
  "diagnostic_lines output =
     (if list_ex is_error_line (split_on newline output)
      then last_n 5 (filter is_error_line (split_on newline output))
      else last_n 10 (split_on newline (strip output)))"

text \<open>A truncated message: its header line and at most ten lines after it.\<close>

definition message_truncated :: "string \<Rightarrow> bool" where
  "message_truncated m = (length (split_on newline m) \<le> Suc 10)"

text \<open>
  The output of the process that an outcome holds: an exception other than the timeout
  leaves none.
\<close>

fun captured_output :: "run_outcome \<Rightarrow> string" where
  "captured_output (Completed rc output) = output"
| "captured_output (TimeoutExpired output) = output"
| "captured_output (Raised e) = []"

text \<open>
  The message of a result reports the output: after its header line, its lines are the
  kept diagnostic lines of the output.
\<close>

definition reports_output_lines :: "BuildResult \<Rightarrow> run_outcome \<Rightarrow> bool" where
  "reports_output_lines r outcome =
     (tl (split_on newline (message r)) = diagnostic_lines (captured_output outcome))"

section \<open>A sample configuration\<close>

text \<open>
  Two boards and two test groups, after the examples of the specification: the first
  board has no I2C, the second has.
\<close>

definition example_board :: BoardConfig where
  "example_board =
     \<lparr>name = ''gd32f407v_start'', series = ''gd32f4xx'',
      peripherals = [''gpio'', ''uart''],
      test_suites = [(''basic'', [''samples/basic/blinky'', ''tests/drivers/i2c''])],
      arch = ''arm''\<rparr>"

definition example_board2 :: BoardConfig where
  "example_board2 =
     \<lparr>name = ''gd32e507z_eval'', series = ''gd32e50x'',
      peripherals = [''gpio'', ''uart'', ''i2c''],
      test_suites = [(''drivers'', [''tests/drivers/i2c''])],
      arch = ''arm''\<rparr>"

definition example_group_all :: group_config where
  "example_group_all =
     \<lparr>group_description = Some ''bus drivers'',
      group_tests = Some [''tests/drivers/i2c''],
      group_boards = Some (SelString ''all'')\<rparr>"

definition example_group_list :: group_config where
  "example_group_list =
     \<lparr>group_description = Some ''smoke tests'',
      group_tests = Some [''samples/hello_world'', ''samples/basic/blinky''],
      group_boards = Some (SelList [''gd32e507z_eval''])\<rparr>"

definition example_loader :: PeripheralMatrixLoader where
  "example_loader =
     \<lparr>boards = [(''gd32f407v_start'', example_board), (''gd32e507z_eval'', example_board2)],
      test_groups = [(''drivers'', example_group_all), (''smoke'', example_group_list)]\<rparr>"

definition example_plan :: "TestPlan list" where
  "example_plan =
     [\<lparr>board = ''A'', test_path = ''t1'', category = ''basic'', required_peripherals = []\<rparr>,
      \<lparr>board = ''A'', test_path = ''t2'', category = ''basic'', required_peripherals = []\<rparr>,
      \<lparr>board = ''B'', test_path = ''t1'', category = ''basic'', required_peripherals = []\<rparr>]"

definition example_testcase :: TestCase where
  "example_testcase =
     \<lparr>tc_name = ''sample.basic.blinky'', tc_path = ''samples/basic/blinky'',
      tc_tags = [], tc_platforms = [], tc_source_type = ''sample''\<rparr>"

definition example_output :: string where
  "example_output =
     ''-- west build'' @ [newline] @ ''main.c:3: error: bad'' @ [newline] @ ''FAILED''
       @ [newline]"

text \<open>The text of the exception raised when the build tool is not installed.\<close>

definition example_exception :: string where
  "example_exception =
     ''[Errno 2] No such file or directory: '' @ [CHR 0x27] @ ''west'' @ [CHR 0x27]"

section \<open>Substring search\<close>

lemma starts_with_prefix: "starts_with p s = prefix p s"
  by (induction p s rule: starts_with.induct) simp_all

lemma contains_sublist: "contains p s = sublist p s"
proof (induction s)
  case Nil
  show ?case by simp
next
  case (Cons c cs)
  show ?case
  proof (cases p)
    case Nil
    then show ?thesis by simp
  next
    case (Cons q qs)
    with Cons.IH show ?thesis
      by (simp add: starts_with_prefix sublist_Cons_right)
  qed
qed

section \<open>The inferred peripherals\<close>

lemma infer_table_eq: "infer_required_peripherals path = infer_by_table path"
  by (simp add: infer_required_peripherals_def infer_by_table_def peripheral_rules_def
      rule_fires_def Let_def)

lemma infer_by_table_distinct: "distinct (infer_by_table path)"
  unfolding infer_by_table_def
  by (rule distinct_map_filter) (simp add: peripheral_rules_def)

lemma infer_by_table_none:
  "\<not> list_ex (rule_fires (lower path)) peripheral_rules \<Longrightarrow> infer_by_table path = []"
  by (simp add: infer_by_table_def list_ex_iff filter_empty_conv)

text \<open>
  Claim C2. For every test path, \<open>_infer_required_peripherals\<close> returns exactly the
  peripherals of the eight-rule substring table applied to the lower-cased path, in
  the check order i2c, spi, uart, gpio, can, ethernet, adc, pwm; the result has no
  duplicate, and it is empty when no trigger substring of any rule occurs in the path.
\<close>

theorem infer_required_peripherals_table:
  "infer_required_peripherals path = infer_by_table path
   \<and> map snd peripheral_rules =
       [''i2c'', ''spi'', ''uart'', ''gpio'', ''can'', ''ethernet'', ''adc'', ''pwm'']
   \<and> distinct (infer_required_peripherals path)
   \<and> (\<not> list_ex (rule_fires (lower path)) peripheral_rules \<longrightarrow>
        infer_required_peripherals path = [])"
  by (simp add: infer_table_eq infer_by_table_distinct infer_by_table_none)
     (simp add: peripheral_rules_def)

theorem infer_required_peripherals_table_witness:
  "\<not> list_ex (rule_fires (lower ''samples/hello_world'')) peripheral_rules
   \<and> infer_required_peripherals ''samples/hello_world'' = []
   \<and> infer_required_peripherals ''tests/drivers/I2C_Shell_Console'' = [''i2c'', ''uart'']
   \<and> infer_by_table ''tests/drivers/I2C_Shell_Console'' = [''i2c'', ''uart'']"
proof -
  have none: "\<not> list_ex (rule_fires (lower ''samples/hello_world'')) peripheral_rules"
    by code_simp
  have run: "infer_required_peripherals ''tests/drivers/I2C_Shell_Console'' = [''i2c'', ''uart'']"
    by code_simp
  from infer_required_peripherals_table [of "''samples/hello_world''"] none
  have "infer_required_peripherals ''samples/hello_world'' = []"
    by blast
  moreover from infer_required_peripherals_table [of "''tests/drivers/I2C_Shell_Console''"] run
  have "infer_by_table ''tests/drivers/I2C_Shell_Console'' = [''i2c'', ''uart'']"
    by simp
  ultimately show ?thesis
    using none run by simp
qed

section \<open>Plans of one board\<close>

lemma board_tests_loop_eq:
  "board_tests_loop cfg b cat ts acc =
     acc @ map (plan_entry b) (filter (\<lambda>ct. board_supports cfg (snd ct)) (map (Pair cat) ts))"
  by (induction ts arbitrary: acc)
     (simp_all add: Let_def plan_entry_def board_supports_def list_all_iff subset_iff)

lemma board_suites_loop_eq:
  "board_suites_loop cfg b suites acc =
     acc @ map (plan_entry b) (filter (\<lambda>ct. board_supports cfg (snd ct))
             (concat (map (\<lambda>(cat, tests). map (Pair cat) tests) suites)))"
  by (induction suites arbitrary: acc) (auto simp: board_tests_loop_eq)

lemma generate_for_board_eq:
  "get_board_config loader b = Some cfg \<Longrightarrow>
   generate_for_board loader b =
     map (plan_entry b) (filter (\<lambda>ct. board_supports cfg (snd ct)) (suite_pairs cfg))"
  by (simp add: generate_for_board_def board_suites_loop_eq suite_pairs_def)

lemma plan_entry_inj: "plan_entry b ct = plan_entry b ct' \<Longrightarrow> ct = ct'"
  by (cases ct, cases ct') (simp add: plan_entry_def)

lemma plan_entry_mem:
  "get_board_config loader b = Some cfg \<Longrightarrow>
   (plan_entry b ct \<in> set (generate_for_board loader b)) =
     (ct \<in> set (suite_pairs cfg) \<and> board_supports cfg (snd ct))"
  by (auto simp: generate_for_board_eq dest: plan_entry_inj)

text \<open>
  Claim C1. For a known board, \<open>generate_for_board\<close> goes through the declared
  (category, test path) pairs, categories outer and test paths inner, both in declared
  order, and keeps the entry of a pair if and only if every peripheral inferred for the
  test path is in the board's peripheral list; a test path with no inferred
  requirement is always kept.
\<close>

theorem generate_for_board_known:
  assumes "get_board_config loader b = Some cfg"
  shows "generate_for_board loader b =
           map (plan_entry b) (filter (\<lambda>ct. board_supports cfg (snd ct)) (suite_pairs cfg))
       \<and> (\<forall>ct. (plan_entry b ct \<in> set (generate_for_board loader b)) =
                (ct \<in> set (suite_pairs cfg) \<and> board_supports cfg (snd ct)))
       \<and> (\<forall>ct \<in> set (suite_pairs cfg). infer_required_peripherals (snd ct) = [] \<longrightarrow>
              plan_entry b ct \<in> set (generate_for_board loader b))"
proof (intro conjI allI ballI impI)
  show "generate_for_board loader b =
          map (plan_entry b) (filter (\<lambda>ct. board_supports cfg (snd ct)) (suite_pairs cfg))"
    using assms by (rule generate_for_board_eq)
next
  fix ct
  show "(plan_entry b ct \<in> set (generate_for_board loader b)) =
          (ct \<in> set (suite_pairs cfg) \<and> board_supports cfg (snd ct))"
    using assms by (rule plan_entry_mem)
next
  fix ct
  assume "ct \<in> set (suite_pairs cfg)" and "infer_required_peripherals (snd ct) = []"
  then show "plan_entry b ct \<in> set (generate_for_board loader b)"
    by (simp add: plan_entry_mem [OF assms] board_supports_def)
qed

lemma example_board_known:
  "get_board_config example_loader ''gd32f407v_start'' = Some example_board"
  by (simp add: get_board_config_def example_loader_def)

lemma example_board_pairs:
  "suite_pairs example_board =
     [(''basic'', ''samples/basic/blinky''), (''basic'', ''tests/drivers/i2c'')]"
  by (simp add: suite_pairs_def example_board_def)

lemma example_board_peripherals: "peripherals example_board = [''gpio'', ''uart'']"
  by (simp add: example_board_def)

lemma infer_blinky: "infer_required_peripherals ''samples/basic/blinky'' = [''gpio'']"
  by code_simp

lemma infer_i2c: "infer_required_peripherals ''tests/drivers/i2c'' = [''i2c'']"
  by code_simp

lemma infer_hello: "infer_required_peripherals ''samples/hello_world'' = []"
  by code_simp

theorem generate_for_board_known_witness:
  "get_board_config example_loader ''gd32f407v_start'' = Some example_board
   \<and> generate_for_board example_loader ''gd32f407v_start'' =
       [\<lparr>board = ''gd32f407v_start'', test_path = ''samples/basic/blinky'',
         category = ''basic'', required_peripherals = [''gpio'']\<rparr>]"
proof -
  have "generate_for_board example_loader ''gd32f407v_start'' =
          map (plan_entry ''gd32f407v_start'')
            (filter (\<lambda>ct. board_supports example_board (snd ct)) (suite_pairs example_board))"
    using generate_for_board_known [OF example_board_known] by blast
  also have "\<dots> = [\<lparr>board = ''gd32f407v_start'', test_path = ''samples/basic/blinky'',
         category = ''basic'', required_peripherals = [''gpio'']\<rparr>]"
    by (simp add: example_board_pairs board_supports_def plan_entry_def infer_blinky infer_i2c
        example_board_peripherals)
  finally show ?thesis
    using example_board_known by simp
qed

section \<open>Plans of several boards\<close>

lemma all_boards_loop_eq:
  "all_boards_loop loader bs acc = acc @ concat (map (generate_for_board loader) bs)"
  by (induction bs arbitrary: acc) simp_all

lemma generate_for_all_boards_none:
  "generate_for_all_boards loader None =
     concat (map (generate_for_board loader) (get_all_boards loader))"
  by (simp add: generate_for_all_boards_def all_boards_loop_eq)

lemma generate_for_all_boards_some:
  "f \<noteq> [] \<Longrightarrow>
   generate_for_all_boards loader (Some f) = concat (map (generate_for_board loader) f)"
  by (simp add: generate_for_all_boards_def all_boards_loop_eq)

lemma generate_for_all_boards_empty:
  "generate_for_all_boards loader (Some []) =
     concat (map (generate_for_board loader) (get_all_boards loader))"
  by (simp add: generate_for_all_boards_def all_boards_loop_eq)

lemma example_board2_known:
  "get_board_config example_loader ''gd32e507z_eval'' = Some example_board2"
  by (simp add: get_board_config_def example_loader_def)

lemma example_all_boards:
  "get_all_boards example_loader = [''gd32f407v_start'', ''gd32e507z_eval'']"
  by (simp add: get_all_boards_def example_loader_def)

lemma example_plans_board1:
  "generate_for_board example_loader ''gd32f407v_start'' =
     [\<lparr>board = ''gd32f407v_start'', test_path = ''samples/basic/blinky'',
       category = ''basic'', required_peripherals = [''gpio'']\<rparr>]"
  by (simp add: generate_for_board_eq [OF example_board_known] example_board_pairs
      board_supports_def plan_entry_def infer_blinky infer_i2c example_board_peripherals)

lemma example_plans_board2:
  "generate_for_board example_loader ''gd32e507z_eval'' =
     [\<lparr>board = ''gd32e507z_eval'', test_path = ''tests/drivers/i2c'',
       category = ''drivers'', required_peripherals = [''i2c'']\<rparr>]"
  by (simp add: generate_for_board_eq [OF example_board2_known] suite_pairs_def
      board_supports_def plan_entry_def infer_i2c example_board2_def)

text \<open>
  Claim C5, as the code has it. Without a filter, \<open>generate_for_all_boards\<close> returns
  the concatenation of \<open>generate_for_board\<close> over all known boards in the order
  \<open>get_all_boards\<close> lists them (the order of the configuration, which need not be
  sorted); with a non-empty filter it returns the concatenation over the filter's
  boards in the order supplied; an empty filter is treated as no filter.
\<close>

theorem generate_for_all_boards_concat:
  "generate_for_all_boards loader None =
     concat (map (generate_for_board loader) (get_all_boards loader))
   \<and> (f \<noteq> [] \<longrightarrow>
        generate_for_all_boards loader (Some f) = concat (map (generate_for_board loader) f))
   \<and> generate_for_all_boards loader (Some []) =
       concat (map (generate_for_board loader) (get_all_boards loader))"
  by (simp add: generate_for_all_boards_none generate_for_all_boards_some
      generate_for_all_boards_empty)

theorem generate_for_all_boards_concat_witness:
  "generate_for_all_boards example_loader (Some [''gd32e507z_eval'', ''gd32f407v_start'']) =
     [\<lparr>board = ''gd32e507z_eval'', test_path = ''tests/drivers/i2c'',
       category = ''drivers'', required_peripherals = [''i2c'']\<rparr>,
      \<lparr>board = ''gd32f407v_start'', test_path = ''samples/basic/blinky'',
       category = ''basic'', required_peripherals = [''gpio'']\<rparr>]
   \<and> generate_for_all_boards example_loader None =
     [\<lparr>board = ''gd32f407v_start'', test_path = ''samples/basic/blinky'',
       category = ''basic'', required_peripherals = [''gpio'']\<rparr>,
      \<lparr>board = ''gd32e507z_eval'', test_path = ''tests/drivers/i2c'',
       category = ''drivers'', required_peripherals = [''i2c'']\<rparr>]"
proof -
  have ne: "[''gd32e507z_eval'', ''gd32f407v_start''] \<noteq> []"
    by simp
  from generate_for_all_boards_concat [of example_loader "[''gd32e507z_eval'', ''gd32f407v_start'']"] ne
  have "generate_for_all_boards example_loader (Some [''gd32e507z_eval'', ''gd32f407v_start'']) =
          concat (map (generate_for_board example_loader) [''gd32e507z_eval'', ''gd32f407v_start''])"
    and "generate_for_all_boards example_loader None =
          concat (map (generate_for_board example_loader) (get_all_boards example_loader))"
    by blast+
  then show ?thesis
    by (simp add: example_all_boards example_plans_board1 example_plans_board2)
qed

text \<open>
  The claim as stated fails twice. The sample configuration declares its boards in
  an order that is not the sorted one, and without a filter the plans come in the
  declared order, not in the order of the sorted board names. And for the empty filter
  the concatenation over the filter's boards is empty, while the generator returns
  the plans of all boards.
\<close>

lemma example_sorted_boards:
  "sort (get_all_boards example_loader) = [''gd32e507z_eval'', ''gd32f407v_start'']"
  by (simp add: example_all_boards)

theorem generate_for_all_boards_order_and_empty_filter_counterexample:
  "generate_for_all_boards example_loader None \<noteq>
     concat (map (generate_for_board example_loader) (sort (get_all_boards example_loader)))
   \<and> generate_for_all_boards example_loader (Some []) \<noteq>
     concat (map (generate_for_board example_loader) [])"
  by (simp add: example_sorted_boards generate_for_all_boards_none
      generate_for_all_boards_empty example_all_boards example_plans_board1
      example_plans_board2)

text \<open>
  Claim C10. An empty board filter is treated as no filter: \<open>generate_for_all_boards\<close>
  with the empty list returns the plans of all known boards, which in the sample
  configuration is not the empty plan.
\<close>

theorem generate_for_all_boards_empty_filter:
  "generate_for_all_boards loader (Some []) = generate_for_all_boards loader None
   \<and> generate_for_all_boards loader (Some []) =
       concat (map (generate_for_board loader) (get_all_boards loader))
   \<and> generate_for_all_boards example_loader (Some []) =
       [\<lparr>board = ''gd32f407v_start'', test_path = ''samples/basic/blinky'',
         category = ''basic'', required_peripherals = [''gpio'']\<rparr>,
        \<lparr>board = ''gd32e507z_eval'', test_path = ''tests/drivers/i2c'',
         category = ''drivers'', required_peripherals = [''i2c'']\<rparr>]"
  by (simp add: generate_for_all_boards_empty generate_for_all_boards_none
      example_all_boards example_plans_board1 example_plans_board2)

section \<open>The invariant of plan entries\<close>

lemma generate_for_board_supported:
  "list_all (plan_supported loader) (generate_for_board loader b)"
proof (cases "get_board_config loader b")
  case None
  then show ?thesis by (simp add: generate_for_board_def)
next
  case (Some cfg)
  then show ?thesis
    by (simp add: generate_for_board_eq list_all_iff plan_supported_def plan_entry_def
        board_supports_def subset_iff)
qed

lemma generate_for_all_boards_supported:
  "list_all (plan_supported loader) (generate_for_all_boards loader f)"
proof -
  have "list_all (plan_supported loader) (concat (map (generate_for_board loader) bs))" for bs
    using generate_for_board_supported by (induction bs) simp_all
  then show ?thesis
    by (simp add: generate_for_all_boards_def all_boards_loop_eq Let_def split: option.split)
qed

section \<open>Plans of a test group\<close>

lemma group_tests_loop_eq:
  "group_tests_loop g b ts acc =
     acc @ map (\<lambda>t. \<lparr>board = b, test_path = t, category = g,
        required_peripherals = infer_required_peripherals t\<rparr>) ts"
  by (induction ts arbitrary: acc) (simp_all add: Let_def)

lemma group_boards_loop_eq:
  "group_boards_loop g ts bs acc = acc @ group_plans g bs ts"
  by (induction bs arbitrary: acc) (simp_all add: group_tests_loop_eq group_plans_def)

lemma length_group_plans: "length (group_plans g bs ts) = length bs * length ts"
  by (induction bs) (simp_all add: group_plans_def)

lemma generate_by_group_all:
  "map_of (test_groups loader) g = Some gc \<Longrightarrow>
   group_boards gc = Some (SelString ''all'') \<Longrightarrow>
   generate_by_group loader g = group_plans g (get_all_boards loader) (group_test_list gc)"
  by (simp add: generate_by_group_def group_falsy_def group_boards_loop_eq group_test_list_def)

lemma generate_by_group_list:
  "map_of (test_groups loader) g = Some gc \<Longrightarrow>
   group_boards gc = Some (SelList bs) \<Longrightarrow>
   generate_by_group loader g = group_plans g bs (group_test_list gc)"
  by (simp add: generate_by_group_def group_falsy_def group_boards_loop_eq group_test_list_def)

lemma example_group_all_known:
  "map_of (test_groups example_loader) ''drivers'' = Some example_group_all"
  by (simp add: example_loader_def)

lemma example_group_list_known:
  "map_of (test_groups example_loader) ''smoke'' = Some example_group_list"
  by (simp add: example_loader_def)

lemma example_plans_drivers:
  "generate_by_group example_loader ''drivers'' =
     [\<lparr>board = ''gd32f407v_start'', test_path = ''tests/drivers/i2c'',
       category = ''drivers'', required_peripherals = [''i2c'']\<rparr>,
      \<lparr>board = ''gd32e507z_eval'', test_path = ''tests/drivers/i2c'',
       category = ''drivers'', required_peripherals = [''i2c'']\<rparr>]"
proof -
  have "group_boards example_group_all = Some (SelString ''all'')"
    by (simp add: example_group_all_def)
  from generate_by_group_all [OF example_group_all_known this] show ?thesis
    by (simp add: example_all_boards group_plans_def group_test_list_def
        example_group_all_def infer_i2c)
qed

text \<open>
  Claim C4. For a known group, \<open>generate_by_group\<close> takes all known boards in the
  order \<open>get_all_boards\<close> lists them when the board selector is the string \<open>all\<close>, and
  the group's own board list in declared order otherwise; it emits one entry for every
  (board, test path) pair, boards outer and tests inner, and filters nothing: the plan
  has as many entries as there are pairs.
\<close>

theorem generate_by_group_known:
  assumes "map_of (test_groups loader) g = Some gc"
  shows "(group_boards gc = Some (SelString ''all'') \<longrightarrow>
            generate_by_group loader g =
              group_plans g (get_all_boards loader) (group_test_list gc)
            \<and> length (generate_by_group loader g) =
                length (get_all_boards loader) * length (group_test_list gc))
       \<and> (\<forall>bs. group_boards gc = Some (SelList bs) \<longrightarrow>
            generate_by_group loader g = group_plans g bs (group_test_list gc)
            \<and> length (generate_by_group loader g) = length bs * length (group_test_list gc))"
  using assms
  by (simp add: generate_by_group_all generate_by_group_list length_group_plans)

theorem generate_by_group_known_witness:
  "map_of (test_groups example_loader) ''drivers'' = Some example_group_all
   \<and> group_boards example_group_all = Some (SelString ''all'')
   \<and> generate_by_group example_loader ''drivers'' =
       [\<lparr>board = ''gd32f407v_start'', test_path = ''tests/drivers/i2c'',
         category = ''drivers'', required_peripherals = [''i2c'']\<rparr>,
        \<lparr>board = ''gd32e507z_eval'', test_path = ''tests/drivers/i2c'',
         category = ''drivers'', required_peripherals = [''i2c'']\<rparr>]
   \<and> map_of (test_groups example_loader) ''smoke'' = Some example_group_list
   \<and> group_boards example_group_list = Some (SelList [''gd32e507z_eval''])
   \<and> generate_by_group example_loader ''smoke'' =
       [\<lparr>board = ''gd32e507z_eval'', test_path = ''samples/hello_world'',
         category = ''smoke'', required_peripherals = []\<rparr>,
        \<lparr>board = ''gd32e507z_eval'', test_path = ''samples/basic/blinky'',
         category = ''smoke'', required_peripherals = [''gpio'']\<rparr>]"
proof -
  have sel_all: "group_boards example_group_all = Some (SelString ''all'')"
    by (simp add: example_group_all_def)
  have sel_list: "group_boards example_group_list = Some (SelList [''gd32e507z_eval''])"
    by (simp add: example_group_list_def)
  from generate_by_group_known [OF example_group_all_known] sel_all
  have "generate_by_group example_loader ''drivers'' =
          group_plans ''drivers'' (get_all_boards example_loader)
            (group_test_list example_group_all)"
    by blast
  then have drivers: "generate_by_group example_loader ''drivers'' =
       [\<lparr>board = ''gd32f407v_start'', test_path = ''tests/drivers/i2c'',
         category = ''drivers'', required_peripherals = [''i2c'']\<rparr>,
        \<lparr>board = ''gd32e507z_eval'', test_path = ''tests/drivers/i2c'',
         category = ''drivers'', required_peripherals = [''i2c'']\<rparr>]"
    by (simp add: example_all_boards group_plans_def group_test_list_def
        example_group_all_def infer_i2c)
  from generate_by_group_known [OF example_group_list_known] sel_list
  have "generate_by_group example_loader ''smoke'' =
          group_plans ''smoke'' [''gd32e507z_eval''] (group_test_list example_group_list)"
    by blast
  then have smoke: "generate_by_group example_loader ''smoke'' =
       [\<lparr>board = ''gd32e507z_eval'', test_path = ''samples/hello_world'',
         category = ''smoke'', required_peripherals = []\<rparr>,
        \<lparr>board = ''gd32e507z_eval'', test_path = ''samples/basic/blinky'',
         category = ''smoke'', required_peripherals = [''gpio'']\<rparr>]"
    by (simp add: group_plans_def group_test_list_def example_group_list_def
        infer_hello infer_blinky)
  show ?thesis
    using drivers smoke sel_all sel_list example_group_all_known example_group_list_known
    by simp
qed

text \<open>
  Claim C3, as the code has it. Every entry that \<open>generate_for_board\<close> or
  \<open>generate_for_all_boards\<close> produces names a known board that has every peripheral
  the entry requires.
\<close>

theorem generated_plans_supported:
  "list_all (plan_supported loader) (generate_for_board loader b)
   \<and> list_all (plan_supported loader) (generate_for_all_boards loader f)"
  by (simp add: generate_for_board_supported generate_for_all_boards_supported)

theorem generated_plans_supported_witness:
  "list_all (plan_supported example_loader)
     [\<lparr>board = ''gd32f407v_start'', test_path = ''samples/basic/blinky'',
       category = ''basic'', required_peripherals = [''gpio'']\<rparr>]
   \<and> list_all (plan_supported example_loader)
     [\<lparr>board = ''gd32f407v_start'', test_path = ''samples/basic/blinky'',
       category = ''basic'', required_peripherals = [''gpio'']\<rparr>,
      \<lparr>board = ''gd32e507z_eval'', test_path = ''tests/drivers/i2c'',
       category = ''drivers'', required_peripherals = [''i2c'']\<rparr>]"
  using generated_plans_supported [of example_loader "''gd32f407v_start''" None]
  by (simp only: example_plans_board1 generate_for_all_boards_none example_all_boards
      list.map concat.simps append.simps example_plans_board2)

text \<open>
  The claim as stated fails for \<open>generate_by_group\<close>: the group \<open>drivers\<close> of the
  sample configuration selects all boards, and its I2C test is planned for the board
  that has no I2C.
\<close>

theorem generate_by_group_unsupported_counterexample:
  "\<not> list_all (plan_supported example_loader) (generate_by_group example_loader ''drivers'')"
  by (simp add: example_plans_drivers plan_supported_def example_board_known
      example_board_peripherals)

section \<open>Unknown names\<close>

lemma generate_for_board_unknown:
  "b \<notin> set (get_all_boards loader) \<Longrightarrow> generate_for_board loader b = []"
proof -
  assume "b \<notin> set (get_all_boards loader)"
  then have "map_of (boards loader) b = None"
    by (simp add: get_all_boards_def map_of_eq_None_iff)
  then show ?thesis
    by (simp add: generate_for_board_def get_board_config_def)
qed

lemma generate_by_group_unknown:
  "g \<notin> set (map fst (test_groups loader)) \<Longrightarrow> generate_by_group loader g = []"
proof -
  assume "g \<notin> set (map fst (test_groups loader))"
  then have "map_of (test_groups loader) g = None"
    by (simp add: map_of_eq_None_iff)
  then show ?thesis
    by (simp add: generate_by_group_def)
qed

text \<open>
  Claim C6. For a board name that is not in the configuration \<open>generate_for_board\<close>
  returns the empty plan, and for a group name that is not in the configuration
  \<open>generate_by_group\<close> returns the empty plan. Both functions are total: neither has a
  path that raises.
\<close>

theorem unknown_names_give_empty_plans:
  "(b \<notin> set (get_all_boards loader) \<longrightarrow> generate_for_board loader b = [])
   \<and> (g \<notin> set (map fst (test_groups loader)) \<longrightarrow> generate_by_group loader g = [])"
  using generate_for_board_unknown [of b loader] generate_by_group_unknown [of g loader]
  by blast

theorem unknown_names_give_empty_plans_witness:
  "''gd32_unknown'' \<notin> set (get_all_boards example_loader)
   \<and> generate_for_board example_loader ''gd32_unknown'' = []
   \<and> ''nightly'' \<notin> set (map fst (test_groups example_loader))
   \<and> generate_by_group example_loader ''nightly'' = []"
proof -
  have nb: "''gd32_unknown'' \<notin> set (get_all_boards example_loader)"
    by (simp add: example_all_boards)
  have ng: "''nightly'' \<notin> set (map fst (test_groups example_loader))"
    by (simp add: example_loader_def)
  from unknown_names_give_empty_plans [of "''gd32_unknown''" example_loader "''nightly''"] nb ng
  show ?thesis by blast
qed

section \<open>The exported document\<close>

lemma those_strings: "those (map (json_string \<circ> JString) xs) = Some xs"
  by (induction xs) simp_all

lemma read_plan_inverse: "read_plan (plan_to_json p) = Some p"
  by (simp add: read_plan_def plan_to_json_def read_string_member_def
      read_string_list_member_def those_strings)

lemma those_plans: "those (map (read_plan \<circ> plan_to_json) ps) = Some ps"
  by (induction ps) (simp_all add: read_plan_inverse)

lemma exported_array:
  "Option.bind (json_member ''test_plans'' (export_data plans)) json_array =
     Some (map plan_to_json plans)"
  by (simp add: export_data_def)

lemma read_exported_plans: "read_test_plans (export_data plans) = Some plans"
  by (simp add: read_test_plans_def export_data_def those_plans)

lemma read_exported_summary:
  "read_summary (export_data plans) =
     Some (int (length plans), int (card (board ` set plans)),
           int (card (test_path ` set plans)))"
  by (simp add: read_summary_def export_data_def export_summary_def read_number_member_def)

lemma print_summary_counts_eq:
  "print_summary_counts plans =
     (length plans, card (board ` set plans), card (test_path ` set plans))"
  by (simp add: print_summary_counts_def)

lemma card_image_remdups: "card (f ` set xs) = length (remdups (map f xs))"
  by (simp add: length_remdups_card_conv)

lemma example_plan_counts:
  "length example_plan = 3
   \<and> card (board ` set example_plan) = 2
   \<and> card (test_path ` set example_plan) = 2"
  by (simp add: card_image_remdups) (simp add: example_plan_def)

text \<open>
  Claim C7. The summary of the exported document holds the length of the plan, the
  number of distinct board names among its entries and the number of distinct test
  paths among its entries, duplicates counting once; \<open>print_summary\<close> prints the same
  three numbers. A plan with the boards A, A, B and the test paths t1, t2, t1 gives
  3, 2 and 2.
\<close>

theorem export_summary_counts:
  "read_summary (export_data plans) =
     Some (int (length plans), int (card (board ` set plans)),
           int (card (test_path ` set plans)))
   \<and> card (board ` set plans) = length (remdups (map board plans))
   \<and> card (test_path ` set plans) = length (remdups (map test_path plans))
   \<and> print_summary_counts plans =
       (length plans, card (board ` set plans), card (test_path ` set plans))
   \<and> read_summary (export_data example_plan) = Some (3, 2, 2)
   \<and> print_summary_counts example_plan = (3, 2, 2)"
  by (simp add: read_exported_summary print_summary_counts_eq card_image_remdups)
     (simp add: example_plan_def)

text \<open>
  Claim C8. The array \<open>test_plans\<close> of the exported document has one record for each
  entry of the plan, in the plan's order, with the entry's board, test path, category
  and required peripherals; reading the array back gives the plan itself.
\<close>

theorem export_round_trip:
  "read_test_plans (export_data plans) = Some plans
   \<and> Option.bind (json_member ''test_plans'' (export_data plans)) json_array =
       Some (map plan_to_json plans)
   \<and> read_plan (plan_to_json p) = Some p"
  by (simp add: read_exported_plans exported_array read_plan_inverse)

section \<open>Lines of a message\<close>

lemma split_on_nonempty: "split_on d s \<noteq> []"
  by (induction s) (simp_all split: list.split)

lemma split_on_no_sep: "l \<in> set (split_on d s) \<Longrightarrow> d \<notin> set l"
proof (induction s arbitrary: l)
  case Nil
  then show ?case by simp
next
  case (Cons c cs)
  then show ?case
    by (cases "split_on d cs") (auto split: if_splits)
qed

lemma split_on_id: "d \<notin> set xs \<Longrightarrow> split_on d xs = [xs]"
  by (induction xs) auto

lemma split_on_append_sep:
  "d \<notin> set xs \<Longrightarrow> split_on d (xs @ d # ys) = xs # split_on d ys"
  by (induction xs) auto

lemma split_on_join:
  "ls \<noteq> [] \<Longrightarrow> \<forall>l \<in> set ls. d \<notin> set l \<Longrightarrow> split_on d (join [d] ls) = ls"
proof (induction ls)
  case Nil
  then show ?case by simp
next
  case (Cons x xs)
  show ?case
  proof (cases xs)
    case Nil
    with Cons.prems show ?thesis by (simp add: split_on_id)
  next
    case (Cons y ys)
    with Cons.prems Cons.IH show ?thesis
      by (simp add: split_on_append_sep)
  qed
qed

lemma last_n_nonempty: "xs \<noteq> [] \<Longrightarrow> 0 < n \<Longrightarrow> last_n n xs \<noteq> []"
  by (cases xs) (auto simp: last_n_def)

lemma length_last_n: "length (last_n n xs) \<le> n"
  by (simp add: last_n_def)

lemma set_last_n: "set (last_n n xs) \<subseteq> set xs"
  by (simp add: last_n_def set_drop_subset)

lemma diagnostic_lines_nonempty: "diagnostic_lines output \<noteq> []"
proof (cases "list_ex is_error_line (split_on newline output)")
  case True
  then have "filter is_error_line (split_on newline output) \<noteq> []"
    by (simp add: list_ex_iff filter_empty_conv)
  then have "last_n 5 (filter is_error_line (split_on newline output)) \<noteq> []"
    by (rule last_n_nonempty) simp
  with True show ?thesis by (simp add: diagnostic_lines_def)
next
  case False
  have "last_n 10 (split_on newline (strip output)) \<noteq> []"
    by (rule last_n_nonempty) (simp_all add: split_on_nonempty)
  with False show ?thesis by (simp add: diagnostic_lines_def)
qed

lemma diagnostic_lines_no_sep:
  assumes "l \<in> set (diagnostic_lines output)"
  shows "newline \<notin> set l"
proof (cases "list_ex is_error_line (split_on newline output)")
  case True
  with assms have "l \<in> set (last_n 5 (filter is_error_line (split_on newline output)))"
    by (simp add: diagnostic_lines_def)
  then have "l \<in> set (filter is_error_line (split_on newline output))"
    by (rule subsetD [OF set_last_n])
  then have "l \<in> set (split_on newline output)" by simp
  then show ?thesis by (rule split_on_no_sep)
next
  case False
  with assms have "l \<in> set (last_n 10 (split_on newline (strip output)))"
    by (simp add: diagnostic_lines_def)
  then have "l \<in> set (split_on newline (strip output))"
    by (rule subsetD [OF set_last_n])
  then show ?thesis by (rule split_on_no_sep)
qed

lemma length_diagnostic_lines: "length (diagnostic_lines output) \<le> 10"
proof -
  have "length (last_n 5 xs) \<le> 10" for xs :: "string list"
    using length_last_n [of 5 xs] by simp
  then show ?thesis
    by (simp add: diagnostic_lines_def length_last_n)
qed

lemma failure_message_eq:
  "failure_message output =
     ''Build failed:'' @ [newline] @ join [newline] (diagnostic_lines output)"
  by (simp add: failure_message_def diagnostic_lines_def Let_def list_ex_iff filter_empty_conv)

lemma failure_message_lines:
  "split_on newline (failure_message output) = ''Build failed:'' # diagnostic_lines output"
proof -
  have "newline \<notin> set ''Build failed:''" by (simp add: newline_def)
  then have "split_on newline (''Build failed:'' @ newline # join [newline] (diagnostic_lines output))
      = ''Build failed:'' # split_on newline (join [newline] (diagnostic_lines output))"
    by (rule split_on_append_sep)
  moreover have "split_on newline (join [newline] (diagnostic_lines output)) =
      diagnostic_lines output"
    using diagnostic_lines_nonempty diagnostic_lines_no_sep by (intro split_on_join) auto
  ultimately show ?thesis by (simp add: failure_message_eq)
qed

lemma failure_message_truncated: "message_truncated (failure_message output)"
  by (simp add: message_truncated_def failure_message_lines length_diagnostic_lines)

section \<open>Results of west_build\<close>

lemma west_build_completed_success:
  "success (west_build b tc d t e (Completed rc output)) = (rc = 0)"
  by (simp add: west_build_def)

lemma west_build_completed_message:
  "message (west_build b tc d t e (Completed rc output)) =
     (if rc = 0 then ''Build successful'' else failure_message output)"
  by (simp add: west_build_def)

lemma west_build_timeout:
  "\<not> success (west_build b tc d t e (TimeoutExpired captured))
   \<and> message (west_build b tc d t e (TimeoutExpired captured)) =
       ''Build timeout after '' @ str_int t @ ''s''"
  by (simp add: west_build_def)

lemma west_build_raised:
  "\<not> success (west_build b tc d t e (Raised x))
   \<and> message (west_build b tc d t e (Raised x)) = ''Build error: '' @ x"
  by (simp add: west_build_def)

lemma digit_char_not_newline: "d < 10 \<Longrightarrow> digit_char d \<noteq> newline"
proof -
  assume "d < 10"
  then have "(of_char (digit_char d) :: nat) = 48 + d"
    by (simp add: digit_char_def)
  moreover have "(of_char newline :: nat) = 10"
    by (simp add: newline_def)
  ultimately show ?thesis by auto
qed

lemma str_nat_no_newline: "newline \<notin> set (str_nat n)"
proof (induction n rule: str_nat.induct)
  case (1 n)
  show ?case
  proof (cases "n < 10")
    case True
    then have "str_nat n = [digit_char n]"
      by (subst str_nat.simps) simp
    with True show ?thesis
      using digit_char_not_newline [of n] by auto
  next
    case False
    then have eq: "str_nat n = str_nat (n div 10) @ [digit_char (n mod 10)]"
      by (subst str_nat.simps) simp
    have "n mod 10 < 10" by simp
    then have "digit_char (n mod 10) \<noteq> newline" by (rule digit_char_not_newline)
    with False 1 eq show ?thesis
      by auto
  qed
qed

lemma str_int_no_newline: "newline \<notin> set (str_int t)"
proof -
  have "newline \<noteq> CHR ''-''" by (simp add: newline_def)
  then show ?thesis
    by (simp add: str_int_def str_nat_no_newline)
qed

lemma timeout_message_one_line:
  "split_on newline (''Build timeout after '' @ str_int t @ ''s'') =
     [''Build timeout after '' @ str_int t @ ''s'']"
proof -
  have "newline \<notin> set ''Build timeout after ''" and "newline \<notin> set ''s''"
    by (simp_all add: newline_def)
  then have "newline \<notin> set (''Build timeout after '' @ str_int t @ ''s'')"
    using str_int_no_newline [of t] by simp
  then show ?thesis by (rule split_on_id)
qed

lemma error_message_one_line:
  assumes "newline \<notin> set x"
  shows "split_on newline (''Build error: '' @ x) = [''Build error: '' @ x]"
proof -
  have "newline \<notin> set ''Build error: ''"
    by (simp add: newline_def)
  with assms have "newline \<notin> set (''Build error: '' @ x)"
    by simp
  then show ?thesis by (rule split_on_id)
qed

text \<open>
  Claim C9, as the code has it. \<open>west_build\<close> returns a result for every outcome of
  the process. The result is a success exactly when the process completes with exit
  status 0. A non-zero exit status gives the message \<open>Build failed:\<close> followed by the
  kept diagnostic lines of the output (the last five error-marker lines, or the last
  ten lines of the stripped output), at most ten of them. A timeout gives the
  one-line message \<open>Build timeout after <timeout>s\<close>, and an exception gives
  \<open>Build error:\<close> followed by the text of the exception, one line when the text is;
  neither reports lines of the output.
\<close>

theorem west_build_classification:
  "success (west_build b tc d t e (Completed rc output)) = (rc = 0)
   \<and> (rc \<noteq> 0 \<longrightarrow>
        message (west_build b tc d t e (Completed rc output)) =
          ''Build failed:'' @ [newline] @ join [newline] (diagnostic_lines output)
        \<and> split_on newline (message (west_build b tc d t e (Completed rc output))) =
            ''Build failed:'' # diagnostic_lines output
        \<and> reports_output_lines (west_build b tc d t e (Completed rc output))
            (Completed rc output)
        \<and> message_truncated (message (west_build b tc d t e (Completed rc output))))
   \<and> length (diagnostic_lines output) \<le> 10
   \<and> \<not> success (west_build b tc d t e (TimeoutExpired captured))
   \<and> message (west_build b tc d t e (TimeoutExpired captured)) =
       ''Build timeout after '' @ str_int t @ ''s''
   \<and> split_on newline (message (west_build b tc d t e (TimeoutExpired captured))) =
       [''Build timeout after '' @ str_int t @ ''s'']
   \<and> \<not> success (west_build b tc d t e (Raised x))
   \<and> message (west_build b tc d t e (Raised x)) = ''Build error: '' @ x
   \<and> (newline \<notin> set x \<longrightarrow>
        split_on newline (message (west_build b tc d t e (Raised x))) =
          [''Build error: '' @ x])"
proof (intro conjI impI)
  show "success (west_build b tc d t e (Completed rc output)) = (rc = 0)"
    by (rule west_build_completed_success)
next
  assume "rc \<noteq> 0"
  then show "message (west_build b tc d t e (Completed rc output)) =
      ''Build failed:'' @ [newline] @ join [newline] (diagnostic_lines output)"
    by (simp only: west_build_completed_message failure_message_eq if_False)
next
  assume "rc \<noteq> 0"
  then show "split_on newline (message (west_build b tc d t e (Completed rc output))) =
      ''Build failed:'' # diagnostic_lines output"
    by (simp only: west_build_completed_message failure_message_lines if_False)
next
  assume "rc \<noteq> 0"
  then show "reports_output_lines (west_build b tc d t e (Completed rc output))
      (Completed rc output)"
    by (simp add: reports_output_lines_def west_build_completed_message
        failure_message_lines)
next
  assume "rc \<noteq> 0"
  then show "message_truncated (message (west_build b tc d t e (Completed rc output)))"
    by (simp only: west_build_completed_message failure_message_truncated if_False)
next
  show "length (diagnostic_lines output) \<le> 10"
    by (rule length_diagnostic_lines)
next
  show "\<not> success (west_build b tc d t e (TimeoutExpired captured))"
    using west_build_timeout [of b tc d t e captured] by (rule conjunct1)
next
  show "message (west_build b tc d t e (TimeoutExpired captured)) =
      ''Build timeout after '' @ str_int t @ ''s''"
    using west_build_timeout [of b tc d t e captured] by (rule conjunct2)
next
  have "message (west_build b tc d t e (TimeoutExpired captured)) =
      ''Build timeout after '' @ str_int t @ ''s''"
    using west_build_timeout [of b tc d t e captured] by (rule conjunct2)
  then show "split_on newline (message (west_build b tc d t e (TimeoutExpired captured))) =
      [''Build timeout after '' @ str_int t @ ''s'']"
    by (simp only: timeout_message_one_line)
next
  show "\<not> success (west_build b tc d t e (Raised x))"
    using west_build_raised [of b tc d t e x] by (rule conjunct1)
next
  show "message (west_build b tc d t e (Raised x)) = ''Build error: '' @ x"
    using west_build_raised [of b tc d t e x] by (rule conjunct2)
next
  assume nl: "newline \<notin> set x"
  have "message (west_build b tc d t e (Raised x)) = ''Build error: '' @ x"
    using west_build_raised [of b tc d t e x] by (rule conjunct2)
  then show "split_on newline (message (west_build b tc d t e (Raised x))) =
      [''Build error: '' @ x]"
    by (simp only: error_message_one_line [OF nl])
qed

lemma example_failure_lines: "diagnostic_lines example_output = [''main.c:3: error: bad'']"
  by code_simp

lemma str_int_600: "str_int 600 = ''600''"
  by code_simp

lemma example_exception_one_line: "newline \<notin> set example_exception"
  by code_simp

theorem west_build_classification_witness:
  "(1::int) \<noteq> 0
   \<and> \<not> success (west_build ''gd32f407v_start'' example_testcase ''build'' 600 2
         (Completed 1 example_output))
   \<and> split_on newline (message (west_build ''gd32f407v_start'' example_testcase ''build'' 600 2
         (Completed 1 example_output))) = [''Build failed:'', ''main.c:3: error: bad'']
   \<and> message (west_build ''gd32f407v_start'' example_testcase ''build'' 600 2
         (TimeoutExpired example_output)) = ''Build timeout after 600s''
   \<and> newline \<notin> set example_exception
   \<and> split_on newline (message (west_build ''gd32f407v_start'' example_testcase ''build'' 600 2
         (Raised example_exception))) = [''Build error: '' @ example_exception]"
proof -
  have nz: "(1::int) \<noteq> 0" by simp
  note c = west_build_classification [of "''gd32f407v_start''" example_testcase "''build''"
      600 2 1 example_output example_output example_exception]
  from c nz have "\<not> success (west_build ''gd32f407v_start'' example_testcase ''build'' 600 2
         (Completed 1 example_output))"
    by blast
  moreover from c nz have "split_on newline (message (west_build ''gd32f407v_start''
         example_testcase ''build'' 600 2 (Completed 1 example_output))) =
       ''Build failed:'' # diagnostic_lines example_output"
    by blast
  moreover from c have "message (west_build ''gd32f407v_start'' example_testcase ''build''
         600 2 (TimeoutExpired example_output)) = ''Build timeout after '' @ str_int 600 @ ''s''"
    by blast
  moreover from c example_exception_one_line
  have "split_on newline (message (west_build ''gd32f407v_start'' example_testcase ''build''
         600 2 (Raised example_exception))) = [''Build error: '' @ example_exception]"
    by blast
  ultimately show ?thesis
    using nz example_exception_one_line by (simp add: example_failure_lines str_int_600)
qed

text \<open>
  The claim as stated fails for the timeout and for the exception: their messages do
  not report the output. A build that prints an error line and then runs into the
  timeout gets the message \<open>Build timeout after 600s\<close>, without the error line; a
  build whose tool cannot be started gets the text of the exception.
\<close>

lemma example_timeout_lines:
  "split_on newline (message (west_build ''gd32f407v_start'' example_testcase ''build'' 600 2
      (TimeoutExpired example_output))) = [''Build timeout after 600s'']"
proof -
  have "message (west_build ''gd32f407v_start'' example_testcase ''build'' 600 2
      (TimeoutExpired example_output)) = ''Build timeout after '' @ str_int 600 @ ''s''"
    using west_build_timeout [of "''gd32f407v_start''" example_testcase "''build''" 600 2
        example_output]
    by (rule conjunct2)
  then have "split_on newline (message (west_build ''gd32f407v_start'' example_testcase
      ''build'' 600 2 (TimeoutExpired example_output))) =
      [''Build timeout after '' @ str_int 600 @ ''s'']"
    by (simp only: timeout_message_one_line)
  then show ?thesis
    by (simp add: str_int_600)
qed

lemma example_exception_lines:
  "split_on newline (message (west_build ''gd32f407v_start'' example_testcase ''build'' 600 2
      (Raised example_exception))) = [''Build error: '' @ example_exception]"
proof -
  have "message (west_build ''gd32f407v_start'' example_testcase ''build'' 600 2
      (Raised example_exception)) = ''Build error: '' @ example_exception"
    using west_build_raised [of "''gd32f407v_start''" example_testcase "''build''" 600 2
        example_exception]
    by (rule conjunct2)
  then show ?thesis
    by (simp only: error_message_one_line [OF example_exception_one_line])
qed

lemma no_output_lines: "diagnostic_lines [] = [[]]"
  by code_simp

theorem west_build_timeout_exception_counterexample:
  "\<not> reports_output_lines
       (west_build ''gd32f407v_start'' example_testcase ''build'' 600 2
          (TimeoutExpired example_output))
       (TimeoutExpired example_output)
   \<and> ''main.c:3: error: bad'' \<in> set (diagnostic_lines example_output)
   \<and> ''main.c:3: error: bad'' \<notin> set (split_on newline
         (message (west_build ''gd32f407v_start'' example_testcase ''build'' 600 2
            (TimeoutExpired example_output))))
   \<and> \<not> reports_output_lines
       (west_build ''gd32f407v_start'' example_testcase ''build'' 600 2
          (Raised example_exception))
       (Raised example_exception)"
  by (simp add: reports_output_lines_def example_timeout_lines example_exception_lines
      example_failure_lines no_output_lines)

end
